theory Spec2Isabelle
  imports Main
begin

section \<open>The KuCoin in-flight order record\<close>

text \<open>
  A shallow embedding of \<^verbatim>\<open>kucoin_in_flight_order.pyx\<close>: the class
  \<^verbatim>\<open>KucoinInFlightOrder\<close>, its four status properties and the class method
  \<^verbatim>\<open>from_json\<close>. Python is dynamically typed, so a field holds a Python value and
  every \<^verbatim>\<open>raise\<close> is a branch of the model.
\<close>

subsection \<open>Python values and exceptions\<close>

text \<open>
  \<^verbatim>\<open>decimal.Decimal\<close> keeps a sign, a coefficient and an exponent, so that
  \<^verbatim>\<open>Decimal("10.00")\<close> and \<^verbatim>\<open>Decimal("10")\<close> are different objects; infinities and
  NaNs (quiet or signalling, with a payload) are values of the type as well.
\<close>

datatype decimal =
    Number (negative: bool) (coefficient: nat) (exponent: int)
  | Infinity bool
  | NaN bool bool nat

text \<open>
  The values that occur in a snapshot and in a record: \<^verbatim>\<open>None\<close>, a \<^verbatim>\<open>str\<close>, an
  \<^verbatim>\<open>int\<close>, a \<^verbatim>\<open>Decimal\<close>, and the member \<open>name\<close> of the enum class \<open>cls\<close>
  (\<open>PyEnum cls name\<close>, printed by Python as \<^verbatim>\<open>cls.name\<close>). Floats, lists and
  dictionaries are left out.
\<close>

datatype pyval =
    PyNone
  | PyStr string
  | PyInt int
  | PyDecimal decimal
  | PyEnum string string

text \<open>A dictionary with string keys, and the attributes of a class by name.\<close>

type_synonym pydict = "string \<rightharpoonup> pyval"
type_synonym pyclass = "string \<rightharpoonup> pyval"

text \<open>
  The exceptions of this fragment: \<^verbatim>\<open>KeyError\<close> with the missing key,
  \<^verbatim>\<open>AttributeError\<close> with the unknown attribute name (the spec's InvalidArgument
  class), \<^verbatim>\<open>decimal.InvalidOperation\<close> (the spec's ParseError class) and
  \<^verbatim>\<open>TypeError\<close>.
\<close>

datatype error =
    KeyError string
  | AttributeError string
  | InvalidOperation
  | TypeError

text \<open>Sequencing: the first exception raised ends the evaluation.\<close>

definition try_then :: "error + 'a \<Rightarrow> ('a \<Rightarrow> error + 'b) \<Rightarrow> error + 'b" where
  "try_then m f = (case m of Inl e \<Rightarrow> Inl e | Inr x \<Rightarrow> f x)"

text \<open>\<^verbatim>\<open>data[key]\<close> on a dictionary.\<close>

definition getitem :: "pydict \<Rightarrow> string \<Rightarrow> error + pyval" where
  "getitem data key = (case data key of None \<Rightarrow> Inl (KeyError key) | Some v \<Rightarrow> Inr v)"

text \<open>
  \<^verbatim>\<open>getattr(cls, name)\<close> on a class: the attribute of that name, whatever it is.
  The members of an enum class are attributes of it, and so is everything else the
  class carries (\<^verbatim>\<open>__name__\<close>, \<^verbatim>\<open>__doc__\<close>, its methods); a name that is not a
  \<^verbatim>\<open>str\<close> is a \<^verbatim>\<open>TypeError\<close>.
\<close>

definition getattr :: "pyclass \<Rightarrow> pyval \<Rightarrow> error + pyval" where
  "getattr cls name =
     (case name of
        PyStr n \<Rightarrow> (case cls n of None \<Rightarrow> Inl (AttributeError n) | Some v \<Rightarrow> Inr v)
      | _ \<Rightarrow> Inl TypeError)"

text \<open>\<open>n\<close> names a member of the enum class \<open>cls\<close>.\<close>

definition enum_member :: "pyclass \<Rightarrow> string \<Rightarrow> bool" where
  "enum_member cls n = (case cls n of Some (PyEnum c m) \<Rightarrow> m = n | _ \<Rightarrow> False)"

text \<open>
  The constructor \<^verbatim>\<open>Decimal(value)\<close>. A \<^verbatim>\<open>Decimal\<close> is returned as it is, an
  \<^verbatim>\<open>int\<close> is converted exactly, and a \<^verbatim>\<open>str\<close> is read by the library's
  numeric-string parser \<open>parse\<close>, which is not part of these sources and is a
  parameter here; text it rejects raises \<^verbatim>\<open>InvalidOperation\<close> (under the default
  context, which traps it). \<^verbatim>\<open>None\<close> and an enum member are a \<^verbatim>\<open>TypeError\<close>.
\<close>

definition Decimal :: "(string \<Rightarrow> decimal option) \<Rightarrow> pyval \<Rightarrow> error + pyval" where
  "Decimal parse v =
     (case v of
        PyDecimal d \<Rightarrow> Inr (PyDecimal d)
      | PyInt i \<Rightarrow> Inr (PyDecimal (Number (i < 0) (nat \<bar>i\<bar>) 0))
      | PyStr s \<Rightarrow> (case parse s of None \<Rightarrow> Inl InvalidOperation | Some d \<Rightarrow> Inr (PyDecimal d))
      | PyNone \<Rightarrow> Inl TypeError
      | PyEnum c n \<Rightarrow> Inl TypeError)"

subsection \<open>The record\<close>

text \<open>
  The twelve attributes of an order. Each holds a Python value; the records and
  snapshots called well-formed below hold values of the annotated types.
\<close>

record KucoinInFlightOrder =
  client_order_id :: pyval
  exchange_order_id :: pyval
  trading_pair :: pyval
  order_type :: pyval
  trade_type :: pyval
  price :: pyval
  amount :: pyval
  executed_amount_base :: pyval
  executed_amount_quote :: pyval
  fee_asset :: pyval
  fee_paid :: pyval
  last_state :: pyval

text \<open>
  What the module takes from outside: the enum classes \<^verbatim>\<open>OrderType\<close> and
  \<^verbatim>\<open>TradeType\<close> (their attributes by name), the numeric-string parser of
  \<^verbatim>\<open>Decimal\<close>, the values the base class gives the four fill attributes of a new
  order, and two points on which releases of the compiler differ in the argument test
  of a compiled method (see \<open>check_str\<close> below): whether \<^verbatim>\<open>None\<close> passes for a
  parameter annotated \<^verbatim>\<open>str\<close>, and whether a parameter annotated
  \<^verbatim>\<open>Optional[str]\<close> is tested at all.
\<close>

record globals =
  OrderType :: pyclass
  TradeType :: pyclass
  decimal_of_text :: "string \<Rightarrow> decimal option"
  new_executed_amount_base :: pyval
  new_executed_amount_quote :: pyval
  new_fee_asset :: pyval
  new_fee_paid :: pyval
  str_admits_None :: bool
  Optional_is_tested :: bool

text \<open>
  Modelled from the spec: the constructor of the base class \<^verbatim>\<open>InFlightOrderBase\<close>
  (\<^verbatim>\<open>hummingbot/connector/in_flight_order_base\<close>, not among the sources). It stores
  its eight arguments in the attributes of the same names, \<^verbatim>\<open>initial_state\<close> in
  \<^verbatim>\<open>last_state\<close>, and validates nothing. The spec does not say what the four fill
  attributes start as; they are taken from the environment.
\<close>

definition InFlightOrderBase_init ::
  "globals \<Rightarrow> pyval \<Rightarrow> pyval \<Rightarrow> pyval \<Rightarrow> pyval \<Rightarrow> pyval \<Rightarrow> pyval \<Rightarrow> pyval \<Rightarrow> pyval
     \<Rightarrow> KucoinInFlightOrder" where
  "InFlightOrderBase_init g client_order_id' exchange_order_id' trading_pair' order_type'
       trade_type' price' amount' initial_state =
     \<lparr> client_order_id = client_order_id',
       exchange_order_id = exchange_order_id',
       trading_pair = trading_pair',
       order_type = order_type',
       trade_type = trade_type',
       price = price',
       amount = amount',
       executed_amount_base = new_executed_amount_base g,
       executed_amount_quote = new_executed_amount_quote g,
       fee_asset = new_fee_asset g,
       fee_paid = new_fee_paid g,
       last_state = initial_state \<rparr>"

text \<open>
  The module is a Cython source, and a compiled \<^verbatim>\<open>def\<close> method tests the
  arguments whose annotation is a builtin type before its body runs. An argument for a parameter
  annotated \<^verbatim>\<open>str\<close> that is not a \<^verbatim>\<open>str\<close> raises \<^verbatim>\<open>TypeError\<close>; for
  \<^verbatim>\<open>None\<close> the environment decides. A parameter annotated \<^verbatim>\<open>Optional[str]\<close>
  admits a \<^verbatim>\<open>str\<close> and \<^verbatim>\<open>None\<close>, and anything else where it is not tested.
  The annotations \<^verbatim>\<open>OrderType\<close>, \<^verbatim>\<open>TradeType\<close> and \<^verbatim>\<open>Decimal\<close> name Python
  classes, which are not tested.
\<close>

definition check_str :: "globals \<Rightarrow> pyval \<Rightarrow> error + pyval" where
  "check_str g v =
     (case v of
        PyStr s \<Rightarrow> Inr v
      | PyNone \<Rightarrow> if str_admits_None g then Inr v else Inl TypeError
      | _ \<Rightarrow> Inl TypeError)"

definition check_Optional_str :: "globals \<Rightarrow> pyval \<Rightarrow> error + pyval" where
  "check_Optional_str g v =
     (case v of
        PyStr s \<Rightarrow> Inr v
      | PyNone \<Rightarrow> Inr v
      | _ \<Rightarrow> if Optional_is_tested g then Inl TypeError else Inr v)"

text \<open>
  \<^verbatim>\<open>KucoinInFlightOrder.__init__\<close>: the keyword \<^verbatim>\<open>initial_state\<close> may be left out
  (\<open>None\<close> here) and is then \<^verbatim>\<open>"LOCAL"\<close>. The arguments are tested against the
  annotations \<^verbatim>\<open>client_order_id: str\<close>, \<^verbatim>\<open>exchange_order_id: Optional[str]\<close>,
  \<^verbatim>\<open>trading_pair: str\<close> and \<^verbatim>\<open>initial_state: str\<close>, and then everything is
  handed to the base class.
\<close>

definition KucoinInFlightOrder_init ::
  "globals \<Rightarrow> pyval \<Rightarrow> pyval \<Rightarrow> pyval \<Rightarrow> pyval \<Rightarrow> pyval \<Rightarrow> pyval \<Rightarrow> pyval \<Rightarrow> pyval option
     \<Rightarrow> error + KucoinInFlightOrder" where
  "KucoinInFlightOrder_init g client_order_id' exchange_order_id' trading_pair' order_type'
       trade_type' price' amount' initial_state =
     (let initial_state' = (case initial_state of None \<Rightarrow> PyStr ''LOCAL'' | Some s \<Rightarrow> s) in
      try_then (check_str g client_order_id') (\<lambda>_.
      try_then (check_Optional_str g exchange_order_id') (\<lambda>_.
      try_then (check_str g trading_pair') (\<lambda>_.
      try_then (check_str g initial_state') (\<lambda>_.
      Inr (InFlightOrderBase_init g client_order_id' exchange_order_id' trading_pair'
             order_type' trade_type' price' amount' initial_state'))))))"

subsection \<open>The status properties\<close>

text \<open>Each is a membership test of \<^verbatim>\<open>self.last_state\<close> in a set literal of strings.\<close>

definition is_done :: "KucoinInFlightOrder \<Rightarrow> bool" where
  "is_done self = (last_state self \<in> {PyStr ''DONE'', PyStr ''CANCEL''})"

definition is_failure :: "KucoinInFlightOrder \<Rightarrow> bool" where
  "is_failure self = (last_state self \<in> {PyStr ''CANCEL''})"

definition is_cancelled :: "KucoinInFlightOrder \<Rightarrow> bool" where
  "is_cancelled self = (last_state self \<in> {PyStr ''CANCEL''})"

definition is_local :: "KucoinInFlightOrder \<Rightarrow> bool" where
  "is_local self = (last_state self \<in> {PyStr ''LOCAL''})"

text \<open>The four status properties of a record, read together.\<close>

definition status_flags :: "KucoinInFlightOrder \<Rightarrow> bool \<times> bool \<times> bool \<times> bool" where
  "status_flags self = (is_done self, is_failure self, is_cancelled self, is_local self)"

subsection \<open>Restoring an order from a snapshot\<close>

text \<open>
  The first statement of \<^verbatim>\<open>from_json\<close>: the arguments of the constructor call are
  evaluated from left to right, each subscript before the conversion applied to it,
  and then the constructor is called with the snapshot's \<^verbatim>\<open>last_state\<close> as
  \<^verbatim>\<open>initial_state\<close>.
\<close>

definition from_json_retval :: "globals \<Rightarrow> pydict \<Rightarrow> error + KucoinInFlightOrder" where
  "from_json_retval g data =
     try_then (getitem data ''client_order_id'') (\<lambda>client_order_id'.
     try_then (getitem data ''exchange_order_id'') (\<lambda>exchange_order_id'.
     try_then (getitem data ''trading_pair'') (\<lambda>trading_pair'.
     try_then (getitem data ''order_type'') (\<lambda>order_type_name.
     try_then (getattr (OrderType g) order_type_name) (\<lambda>order_type'.
     try_then (getitem data ''trade_type'') (\<lambda>trade_type_name.
     try_then (getattr (TradeType g) trade_type_name) (\<lambda>trade_type'.
     try_then (getitem data ''price'') (\<lambda>price_text.
     try_then (Decimal (decimal_of_text g) price_text) (\<lambda>price'.
     try_then (getitem data ''amount'') (\<lambda>amount_text.
     try_then (Decimal (decimal_of_text g) amount_text) (\<lambda>amount'.
     try_then (getitem data ''last_state'') (\<lambda>initial_state.
     KucoinInFlightOrder_init g client_order_id' exchange_order_id' trading_pair'
       order_type' trade_type' price' amount' (Some initial_state)))))))))))))"

text \<open>
  The five assignments that follow, in order, and the \<^verbatim>\<open>return\<close>. Each right-hand
  side is evaluated and then stored in the object the previous statement left; an
  exception abandons the object, which nothing else refers to.
\<close>

definition from_json_assign :: "globals \<Rightarrow> pydict \<Rightarrow> KucoinInFlightOrder \<Rightarrow> error + KucoinInFlightOrder" where
  "from_json_assign g data retval =
     try_then (getitem data ''executed_amount_base'') (\<lambda>base_text.
     try_then (Decimal (decimal_of_text g) base_text) (\<lambda>base.
     let retval = retval\<lparr>executed_amount_base := base\<rparr> in
     try_then (getitem data ''executed_amount_quote'') (\<lambda>quote_text.
     try_then (Decimal (decimal_of_text g) quote_text) (\<lambda>quote.
     let retval = retval\<lparr>executed_amount_quote := quote\<rparr> in
     try_then (getitem data ''fee_asset'') (\<lambda>fee_asset'.
     let retval = retval\<lparr>fee_asset := fee_asset'\<rparr> in
     try_then (getitem data ''fee_paid'') (\<lambda>fee_text.
     try_then (Decimal (decimal_of_text g) fee_text) (\<lambda>fee.
     let retval = retval\<lparr>fee_paid := fee\<rparr> in
     try_then (getitem data ''last_state'') (\<lambda>last_state'.
     let retval = retval\<lparr>last_state := last_state'\<rparr> in
     Inr retval))))))))"

definition from_json :: "globals \<Rightarrow> pydict \<Rightarrow> error + KucoinInFlightOrder" where
  "from_json g data = try_then (from_json_retval g data) (from_json_assign g data)"

subsection \<open>Well-formed records and snapshots\<close>

text \<open>The types of the data model, as predicates on Python values.\<close>

definition is_str :: "pyval \<Rightarrow> bool" where
  "is_str v = (case v of PyStr s \<Rightarrow> True | _ \<Rightarrow> False)"

definition is_optional_str :: "pyval \<Rightarrow> bool" where
  "is_optional_str v = (case v of PyStr s \<Rightarrow> True | PyNone \<Rightarrow> True | _ \<Rightarrow> False)"

definition is_decimal :: "pyval \<Rightarrow> bool" where
  "is_decimal v = (case v of PyDecimal d \<Rightarrow> True | _ \<Rightarrow> False)"

definition is_member :: "pyclass \<Rightarrow> pyval \<Rightarrow> bool" where
  "is_member cls v = (case v of PyEnum c n \<Rightarrow> cls n = Some v | _ \<Rightarrow> False)"

text \<open>
  An order record of the data model: identifiers, trading pair and status are strings
  (the exchange's identifier and the fee asset may be absent), the order and trade
  types are members of their enums, and the five quantities are decimals.
\<close>

definition order_record :: "globals \<Rightarrow> KucoinInFlightOrder \<Rightarrow> bool" where
  "order_record g r =
     (is_str (client_order_id r) \<and> is_optional_str (exchange_order_id r) \<and>
      is_str (trading_pair r) \<and>
      is_member (OrderType g) (order_type r) \<and> is_member (TradeType g) (trade_type r) \<and>
      is_decimal (price r) \<and> is_decimal (amount r) \<and>
      is_decimal (executed_amount_base r) \<and> is_decimal (executed_amount_quote r) \<and>
      is_optional_str (fee_asset r) \<and> is_decimal (fee_paid r) \<and>
      is_str (last_state r))"

text \<open>
  The keys \<^verbatim>\<open>from_json\<close> reads, in the order in which it first reads them, and
  those it converts with \<^verbatim>\<open>Decimal\<close>.
\<close>

definition required_keys :: "string list" where
  "required_keys =
     [''client_order_id'', ''exchange_order_id'', ''trading_pair'', ''order_type'',
      ''trade_type'', ''price'', ''amount'', ''last_state'', ''executed_amount_base'',
      ''executed_amount_quote'', ''fee_asset'', ''fee_paid'']"

definition decimal_keys :: "string list" where
  "decimal_keys =
     [''price'', ''amount'', ''executed_amount_base'', ''executed_amount_quote'',
      ''fee_paid'']"

text \<open>
  What \<^verbatim>\<open>from_json\<close> does with one key: the subscript, then the conversion it
  applies to that key's value.
\<close>

definition convert :: "globals \<Rightarrow> string \<Rightarrow> pyval \<Rightarrow> error + pyval" where
  "convert g key v =
     (if key = ''order_type'' then getattr (OrderType g) v
      else if key = ''trade_type'' then getattr (TradeType g) v
      else if key \<in> set decimal_keys then Decimal (decimal_of_text g) v
      else Inr v)"

definition field_value :: "globals \<Rightarrow> pydict \<Rightarrow> string \<Rightarrow> error + pyval" where
  "field_value g data key = try_then (getitem data key) (convert g key)"

text \<open>
  The keys read before \<open>key\<close>, and the keys read by the assignments that follow the
  constructor call (\<^verbatim>\<open>last_state\<close> is read there again, never for the first time).
\<close>

definition earlier_keys :: "string \<Rightarrow> string list" where
  "earlier_keys key = takeWhile (\<lambda>k. k \<noteq> key) required_keys"

definition assigned_keys :: "string list" where
  "assigned_keys =
     [''executed_amount_base'', ''executed_amount_quote'', ''fee_asset'', ''fee_paid'']"

text \<open>
  The evaluation reaches the subscript of \<open>key\<close> when no step before it raises: every
  key read earlier is present and its conversion succeeds, and, for a key read by one
  of the assignments, the constructor call has returned an object.
\<close>

definition reaches :: "globals \<Rightarrow> pydict \<Rightarrow> string \<Rightarrow> bool" where
  "reaches g data key =
     ((\<forall>k \<in> set (earlier_keys key). \<not> isl (field_value g data k)) \<and>
      (key \<in> set assigned_keys \<longrightarrow> \<not> isl (from_json_retval g data)))"

text \<open>\<open>holds data key P\<close>: the key is present and its value satisfies \<open>P\<close>.\<close>

definition holds :: "pydict \<Rightarrow> string \<Rightarrow> (pyval \<Rightarrow> bool) \<Rightarrow> bool" where
  "holds data key P = (case data key of None \<Rightarrow> False | Some v \<Rightarrow> P v)"

definition names_member :: "pyclass \<Rightarrow> pyval \<Rightarrow> bool" where
  "names_member cls v = (case v of PyStr n \<Rightarrow> enum_member cls n | _ \<Rightarrow> False)"

definition convertible :: "globals \<Rightarrow> pyval \<Rightarrow> bool" where
  "convertible g v = (case Decimal (decimal_of_text g) v of Inl e \<Rightarrow> False | Inr d \<Rightarrow> True)"

text \<open>
  A well-formed snapshot: all twelve keys are present, the strings are strings, the
  order and trade types name members of their enums, and \<^verbatim>\<open>Decimal\<close> accepts the
  five quantities.
\<close>

definition snapshot_ok :: "globals \<Rightarrow> pydict \<Rightarrow> bool" where
  "snapshot_ok g data =
     (holds data ''client_order_id'' is_str \<and>
      holds data ''exchange_order_id'' is_optional_str \<and>
      holds data ''trading_pair'' is_str \<and>
      holds data ''order_type'' (names_member (OrderType g)) \<and>
      holds data ''trade_type'' (names_member (TradeType g)) \<and>
      holds data ''price'' (convertible g) \<and>
      holds data ''amount'' (convertible g) \<and>
      holds data ''last_state'' is_str \<and>
      holds data ''executed_amount_base'' (convertible g) \<and>
      holds data ''executed_amount_quote'' (convertible g) \<and>
      holds data ''fee_asset'' is_optional_str \<and>
      holds data ''fee_paid'' (convertible g))"

text \<open>
  A record is populated from a snapshot when each attribute is what the snapshot's
  key gives: the value itself, the attribute of the enum class it names, or its
  conversion by \<^verbatim>\<open>Decimal\<close>.
\<close>

definition populated :: "globals \<Rightarrow> pydict \<Rightarrow> KucoinInFlightOrder \<Rightarrow> bool" where
  "populated g data r =
     (data ''client_order_id'' = Some (client_order_id r) \<and>
      data ''exchange_order_id'' = Some (exchange_order_id r) \<and>
      data ''trading_pair'' = Some (trading_pair r) \<and>
      map_option (getattr (OrderType g)) (data ''order_type'') = Some (Inr (order_type r)) \<and>
      map_option (getattr (TradeType g)) (data ''trade_type'') = Some (Inr (trade_type r)) \<and>
      map_option (Decimal (decimal_of_text g)) (data ''price'') = Some (Inr (price r)) \<and>
      map_option (Decimal (decimal_of_text g)) (data ''amount'') = Some (Inr (amount r)) \<and>
      data ''last_state'' = Some (last_state r) \<and>
      map_option (Decimal (decimal_of_text g)) (data ''executed_amount_base'')
        = Some (Inr (executed_amount_base r)) \<and>
      map_option (Decimal (decimal_of_text g)) (data ''executed_amount_quote'')
        = Some (Inr (executed_amount_quote r)) \<and>
      data ''fee_asset'' = Some (fee_asset r) \<and>
      map_option (Decimal (decimal_of_text g)) (data ''fee_paid'') = Some (Inr (fee_paid r)))"

subsection \<open>Writing a snapshot\<close>

text \<open>\<^verbatim>\<open>member.name\<close> of an enum member; other values have no such attribute.\<close>

definition enum_name :: "pyval \<Rightarrow> error + pyval" where
  "enum_name v = (case v of PyEnum c n \<Rightarrow> Inr (PyStr n) | _ \<Rightarrow> Inl (AttributeError ''name''))"

text \<open>
  Modelled from the spec: the serialisation of a record to a mapping with the
  documented key set, which these sources do not contain (the spec leaves it to the
  caller, "mirroring this field set"). Each key holds the attribute of the same name;
  the order and trade types are written as the names of their members, the form that
  \<^verbatim>\<open>from_json\<close> looks up, and the five quantities as the caller renders a decimal
  (\<open>render\<close>: the value itself, or its text).
\<close>

definition to_json :: "(pyval \<Rightarrow> pyval) \<Rightarrow> KucoinInFlightOrder \<Rightarrow> error + pydict" where
  "to_json render self =
     try_then (enum_name (order_type self)) (\<lambda>order_type_name.
     try_then (enum_name (trade_type self)) (\<lambda>trade_type_name.
     Inr [''client_order_id'' \<mapsto> client_order_id self,
          ''exchange_order_id'' \<mapsto> exchange_order_id self,
          ''trading_pair'' \<mapsto> trading_pair self,
          ''order_type'' \<mapsto> order_type_name,
          ''trade_type'' \<mapsto> trade_type_name,
          ''price'' \<mapsto> render (price self),
          ''amount'' \<mapsto> render (amount self),
          ''last_state'' \<mapsto> last_state self,
          ''executed_amount_base'' \<mapsto> render (executed_amount_base self),
          ''executed_amount_quote'' \<mapsto> render (executed_amount_quote self),
          ''fee_asset'' \<mapsto> fee_asset self,
          ''fee_paid'' \<mapsto> render (fee_paid self)]))"

subsection \<open>A concrete environment\<close>

text \<open>
  The instances below are evaluated in this environment. Its enum classes have the
  members the spec names, and the attribute \<^verbatim>\<open>__name__\<close> that every Python class
  has. Its parser reads the fixed-point part of the numeric-string syntax: an optional
  sign, digits, and optionally a point and more digits, with at least one digit.
\<close>

definition sample_OrderType :: pyclass where
  "sample_OrderType =
     [''LIMIT'' \<mapsto> PyEnum ''OrderType'' ''LIMIT'',
      ''MARKET'' \<mapsto> PyEnum ''OrderType'' ''MARKET'',
      ''__name__'' \<mapsto> PyStr ''OrderType'']"

definition sample_TradeType :: pyclass where
  "sample_TradeType =
     [''BUY'' \<mapsto> PyEnum ''TradeType'' ''BUY'',
      ''SELL'' \<mapsto> PyEnum ''TradeType'' ''SELL'',
      ''__name__'' \<mapsto> PyStr ''TradeType'']"

definition digit_of :: "char \<Rightarrow> nat option" where
  "digit_of c =
     (let n = (of_char c :: nat) in if 48 \<le> n \<and> n \<le> 57 then Some (n - 48) else None)"

fun digits_value :: "nat \<Rightarrow> string \<Rightarrow> nat option" where
  "digits_value acc [] = Some acc"
| "digits_value acc (c # cs) =
     (case digit_of c of None \<Rightarrow> None | Some d \<Rightarrow> digits_value (10 * acc + d) cs)"

definition fixed_point_text :: "string \<Rightarrow> decimal option" where
  "fixed_point_text s =
     (let signed = (s \<noteq> [] \<and> (hd s = CHR ''-'' \<or> hd s = CHR ''+''));
          body = (if signed then tl s else s);
          int_part = takeWhile (\<lambda>c. c \<noteq> CHR ''.'') body;
          frac_part = drop 1 (dropWhile (\<lambda>c. c \<noteq> CHR ''.'') body)
      in if int_part @ frac_part = [] then None
         else case digits_value 0 (int_part @ frac_part) of
                None \<Rightarrow> None
              | Some n \<Rightarrow> Some (Number (s \<noteq> [] \<and> hd s = CHR ''-'') n (- int (length frac_part))))"

definition sample_globals :: globals where
  "sample_globals =
     \<lparr> OrderType = sample_OrderType,
       TradeType = sample_TradeType,
       decimal_of_text = fixed_point_text,
       new_executed_amount_base = PyDecimal (Number False 0 0),
       new_executed_amount_quote = PyDecimal (Number False 0 0),
       new_fee_asset = PyNone,
       new_fee_paid = PyDecimal (Number False 0 0),
       str_admits_None = False,
       Optional_is_tested = True \<rparr>"

text \<open>
  A snapshot of a partly filled limit order, and the record it stands for
  (\<^verbatim>\<open>executed_amount_base = 1.5\<close>, \<^verbatim>\<open>fee_paid = 0.01\<close>,
  \<^verbatim>\<open>last_state = "partial-filled"\<close>).
\<close>

definition sample_snapshot :: pydict where
  "sample_snapshot =
     [''client_order_id'' \<mapsto> PyStr ''C1'',
      ''exchange_order_id'' \<mapsto> PyNone,
      ''trading_pair'' \<mapsto> PyStr ''ETH-USDT'',
      ''order_type'' \<mapsto> PyStr ''LIMIT'',
      ''trade_type'' \<mapsto> PyStr ''BUY'',
      ''price'' \<mapsto> PyStr ''10.00'',
      ''amount'' \<mapsto> PyStr ''2.0'',
      ''last_state'' \<mapsto> PyStr ''partial-filled'',
      ''executed_amount_base'' \<mapsto> PyStr ''1.5'',
      ''executed_amount_quote'' \<mapsto> PyStr ''15.0'',
      ''fee_asset'' \<mapsto> PyStr ''USDT'',
      ''fee_paid'' \<mapsto> PyStr ''0.01'']"

definition sample_order :: KucoinInFlightOrder where
  "sample_order =
     \<lparr> client_order_id = PyStr ''C1'',
       exchange_order_id = PyNone,
       trading_pair = PyStr ''ETH-USDT'',
       order_type = PyEnum ''OrderType'' ''LIMIT'',
       trade_type = PyEnum ''TradeType'' ''BUY'',
       price = PyDecimal (Number False 1000 (- 2)),
       amount = PyDecimal (Number False 20 (- 1)),
       executed_amount_base = PyDecimal (Number False 15 (- 1)),
       executed_amount_quote = PyDecimal (Number False 150 (- 1)),
       fee_asset = PyStr ''USDT'',
       fee_paid = PyDecimal (Number False 1 (- 2)),
       last_state = PyStr ''partial-filled'' \<rparr>"

text \<open>
  A caller's rendering of decimals for the snapshot: two of the sample order's
  quantities as text, the others as the \<^verbatim>\<open>Decimal\<close> itself.
\<close>

definition sample_render :: "pyval \<Rightarrow> pyval" where
  "sample_render v =
     (if v = PyDecimal (Number False 15 (- 1)) then PyStr ''1.5''
      else if v = PyDecimal (Number False 1 (- 2)) then PyStr ''0.01''
      else v)"

section \<open>Properties\<close>

subsection \<open>Sequencing and the single steps\<close>

lemma try_then_Inr [simp]: "try_then (Inr x) f = f x"
  by (simp add: try_then_def)

lemma try_then_Inl [simp]: "try_then (Inl e) f = Inl e"
  by (simp add: try_then_def)

lemma try_then_eq_Inr: "try_then m f = Inr r \<longleftrightarrow> (\<exists>x. m = Inr x \<and> f x = Inr r)"
  by (cases m) simp_all

lemma try_then_assoc: "try_then (try_then m f) h = try_then m (\<lambda>x. try_then (f x) h)"
  by (cases m) simp_all

lemma not_isl_iff: "\<not> isl m \<longleftrightarrow> (\<exists>x. m = Inr x)"
  by (cases m) simp_all

lemma getitem_eq_Inr: "getitem data key = Inr v \<longleftrightarrow> data key = Some v"
  by (simp add: getitem_def split: option.split)

lemma getitem_Some: "data key = Some v \<Longrightarrow> getitem data key = Inr v"
  by (simp add: getitem_def)

lemma getitem_None: "data key = None \<Longrightarrow> getitem data key = Inl (KeyError key)"
  by (simp add: getitem_def)

lemma getattr_attribute: "cls n = Some x \<Longrightarrow> getattr cls (PyStr n) = Inr x"
  by (simp add: getattr_def)

lemma getattr_unknown: "cls n = None \<Longrightarrow> getattr cls (PyStr n) = Inl (AttributeError n)"
  by (simp add: getattr_def)

lemma Decimal_unparsable: "parse t = None \<Longrightarrow> Decimal parse (PyStr t) = Inl InvalidOperation"
  by (simp add: Decimal_def)

subsection \<open>The constructor\<close>

lemma check_str_is_str: "is_str v \<Longrightarrow> check_str g v = Inr v"
  by (simp add: is_str_def check_str_def split: pyval.splits)

lemma check_Optional_str_is_optional_str: "is_optional_str v \<Longrightarrow> check_Optional_str g v = Inr v"
  by (simp add: is_optional_str_def check_Optional_str_def split: pyval.splits)

lemma init_typed:
  assumes "is_str a" and "is_optional_str b" and "is_str c" and "is_str s"
  shows "KucoinInFlightOrder_init g a b c d e f h (Some s)
           = Inr (InFlightOrderBase_init g a b c d e f h s)"
  using assms
  by (simp add: KucoinInFlightOrder_init_def check_str_is_str check_Optional_str_is_optional_str)

lemma init_default_typed:
  assumes "is_str a" and "is_optional_str b" and "is_str c"
  shows "KucoinInFlightOrder_init g a b c d e f h None
           = Inr (InFlightOrderBase_init g a b c d e f h (PyStr ''LOCAL''))"
  using assms
  by (simp add: KucoinInFlightOrder_init_def check_str_is_str check_Optional_str_is_optional_str
      is_str_def)

lemma init_Inr:
  assumes "KucoinInFlightOrder_init g a b c d e f h st = Inr r"
  shows "r = InFlightOrderBase_init g a b c d e f h
               (case st of None \<Rightarrow> PyStr ''LOCAL'' | Some s \<Rightarrow> s)"
  using assms by (auto simp: KucoinInFlightOrder_init_def Let_def try_then_eq_Inr)

subsection \<open>The first exception wins\<close>

text \<open>
  The two statements of \<^verbatim>\<open>from_json\<close> as sequences of key readings: every step is
  the \<open>field_value\<close> of a key, up to the constructor call and the storing of the
  values.
\<close>

lemma from_json_retval_field_values:
  "from_json_retval g data =
     try_then (field_value g data ''client_order_id'') (\<lambda>a.
     try_then (field_value g data ''exchange_order_id'') (\<lambda>b.
     try_then (field_value g data ''trading_pair'') (\<lambda>c.
     try_then (field_value g data ''order_type'') (\<lambda>d.
     try_then (field_value g data ''trade_type'') (\<lambda>e.
     try_then (field_value g data ''price'') (\<lambda>f.
     try_then (field_value g data ''amount'') (\<lambda>h.
     try_then (field_value g data ''last_state'') (\<lambda>s.
     KucoinInFlightOrder_init g a b c d e f h (Some s)))))))))"
  by (simp add: from_json_retval_def field_value_def convert_def decimal_keys_def try_then_assoc)

lemma from_json_assign_field_values:
  "from_json_assign g data retval =
     try_then (field_value g data ''executed_amount_base'') (\<lambda>base.
     try_then (field_value g data ''executed_amount_quote'') (\<lambda>quote.
     try_then (field_value g data ''fee_asset'') (\<lambda>fee_asset'.
     try_then (field_value g data ''fee_paid'') (\<lambda>fee.
     try_then (field_value g data ''last_state'') (\<lambda>last_state'.
     Inr (retval\<lparr> executed_amount_base := base,
                  executed_amount_quote := quote,
                  fee_asset := fee_asset',
                  fee_paid := fee,
                  last_state := last_state' \<rparr>))))))"
  by (simp add: from_json_assign_def Let_def field_value_def convert_def decimal_keys_def
      try_then_assoc)

lemma earlier_keys_simps:
  "earlier_keys ''client_order_id'' = []"
  "earlier_keys ''exchange_order_id'' = [''client_order_id'']"
  "earlier_keys ''trading_pair'' = [''client_order_id'', ''exchange_order_id'']"
  "earlier_keys ''order_type'' = [''client_order_id'', ''exchange_order_id'', ''trading_pair'']"
  "earlier_keys ''trade_type'' =
     [''client_order_id'', ''exchange_order_id'', ''trading_pair'', ''order_type'']"
  "earlier_keys ''price'' =
     [''client_order_id'', ''exchange_order_id'', ''trading_pair'', ''order_type'',
      ''trade_type'']"
  "earlier_keys ''amount'' =
     [''client_order_id'', ''exchange_order_id'', ''trading_pair'', ''order_type'',
      ''trade_type'', ''price'']"
  "earlier_keys ''last_state'' =
     [''client_order_id'', ''exchange_order_id'', ''trading_pair'', ''order_type'',
      ''trade_type'', ''price'', ''amount'']"
  "earlier_keys ''executed_amount_base'' =
     [''client_order_id'', ''exchange_order_id'', ''trading_pair'', ''order_type'',
      ''trade_type'', ''price'', ''amount'', ''last_state'']"
  "earlier_keys ''executed_amount_quote'' =
     [''client_order_id'', ''exchange_order_id'', ''trading_pair'', ''order_type'',
      ''trade_type'', ''price'', ''amount'', ''last_state'', ''executed_amount_base'']"
  "earlier_keys ''fee_asset'' =
     [''client_order_id'', ''exchange_order_id'', ''trading_pair'', ''order_type'',
      ''trade_type'', ''price'', ''amount'', ''last_state'', ''executed_amount_base'',
      ''executed_amount_quote'']"
  "earlier_keys ''fee_paid'' =
     [''client_order_id'', ''exchange_order_id'', ''trading_pair'', ''order_type'',
      ''trade_type'', ''price'', ''amount'', ''last_state'', ''executed_amount_base'',
      ''executed_amount_quote'', ''fee_asset'']"
  by (simp_all add: earlier_keys_def required_keys_def)

text \<open>
  When the evaluation reaches the reading of a key and that reading raises, this is
  the exception of \<^verbatim>\<open>from_json\<close>.
\<close>

lemma first_failure_argument:
  assumes "key \<in> set (take 8 required_keys)"
    and "\<forall>k \<in> set (earlier_keys key). \<not> isl (field_value g data k)"
    and "field_value g data key = Inl e"
  shows "from_json_retval g data = Inl e"
proof -
  from assms(1) have
    "key = ''client_order_id'' \<or> key = ''exchange_order_id'' \<or> key = ''trading_pair'' \<or>
     key = ''order_type'' \<or> key = ''trade_type'' \<or> key = ''price'' \<or> key = ''amount'' \<or>
     key = ''last_state''"
    by (simp add: required_keys_def)
  then show ?thesis
    using assms(2,3)
    by (elim disjE)
      (clarsimp simp: earlier_keys_simps not_isl_iff from_json_retval_field_values)+
qed

lemma first_failure_assigned:
  assumes "key \<in> set assigned_keys"
    and "\<forall>k \<in> set (earlier_keys key). \<not> isl (field_value g data k)"
    and "field_value g data key = Inl e"
  shows "from_json_assign g data retval = Inl e"
proof -
  from assms(1) have
    "key = ''executed_amount_base'' \<or> key = ''executed_amount_quote'' \<or>
     key = ''fee_asset'' \<or> key = ''fee_paid''"
    by (simp add: assigned_keys_def)
  then show ?thesis
    using assms(2,3)
    by (elim disjE)
      (clarsimp simp: earlier_keys_simps not_isl_iff from_json_assign_field_values)+
qed

lemma required_keys_split:
  assumes "key \<in> set required_keys"
  shows "key \<in> set (take 8 required_keys) \<and> key \<notin> set assigned_keys \<or>
         key \<in> set assigned_keys"
proof -
  from assms have
    "key = ''client_order_id'' \<or> key = ''exchange_order_id'' \<or> key = ''trading_pair'' \<or>
     key = ''order_type'' \<or> key = ''trade_type'' \<or> key = ''price'' \<or> key = ''amount'' \<or>
     key = ''last_state'' \<or> key = ''executed_amount_base'' \<or>
     key = ''executed_amount_quote'' \<or> key = ''fee_asset'' \<or> key = ''fee_paid''"
    by (simp add: required_keys_def)
  then show ?thesis
    by (elim disjE) (simp_all add: required_keys_def assigned_keys_def)
qed

lemma first_failure:
  assumes "key \<in> set required_keys" and "reaches g data key"
    and "field_value g data key = Inl e"
  shows "from_json g data = Inl e"
proof -
  from assms(2) have
    earlier: "\<forall>k \<in> set (earlier_keys key). \<not> isl (field_value g data k)"
    by (simp add: reaches_def)
  from required_keys_split [OF assms(1)] show ?thesis
  proof
    assume "key \<in> set (take 8 required_keys) \<and> key \<notin> set assigned_keys"
    then have "key \<in> set (take 8 required_keys)" ..
    then have "from_json_retval g data = Inl e"
      using earlier assms(3) by (rule first_failure_argument)
    then show ?thesis by (simp add: from_json_def)
  next
    assume k: "key \<in> set assigned_keys"
    with assms(2) obtain retval where "from_json_retval g data = Inr retval"
      by (auto simp: reaches_def not_isl_iff)
    moreover from k earlier assms(3) have "from_json_assign g data retval = Inl e"
      by (rule first_failure_assigned)
    ultimately show ?thesis by (simp add: from_json_def)
  qed
qed


subsection \<open>What a returned record holds\<close>

lemma from_json_retval_Inr:
  assumes "from_json_retval g data = Inr retval"
  shows "\<exists>tn tt' pt at'.
           data ''order_type'' = Some tn \<and> getattr (OrderType g) tn = Inr (order_type retval) \<and>
           data ''trade_type'' = Some tt' \<and> getattr (TradeType g) tt' = Inr (trade_type retval) \<and>
           data ''price'' = Some pt \<and> Decimal (decimal_of_text g) pt = Inr (price retval) \<and>
           data ''amount'' = Some at' \<and> Decimal (decimal_of_text g) at' = Inr (amount retval)"
    and "data ''client_order_id'' = Some (client_order_id retval)"
    and "data ''exchange_order_id'' = Some (exchange_order_id retval)"
    and "data ''trading_pair'' = Some (trading_pair retval)"
    and "data ''last_state'' = Some (last_state retval)"
  using assms
  by (auto simp: from_json_retval_def try_then_eq_Inr getitem_eq_Inr InFlightOrderBase_init_def
      dest!: init_Inr)

lemma from_json_retval_constructed:
  assumes "from_json_retval g data = Inr retval"
  shows "\<exists>a b c d e f h s. data ''last_state'' = Some s \<and>
           KucoinInFlightOrder_init g a b c d e f h (Some s) = Inr retval"
  using assms
  by (clarsimp simp: from_json_retval_def try_then_eq_Inr getitem_eq_Inr) blast

lemma from_json_assign_Inr:
  assumes "from_json_assign g data retval = Inr r"
  shows "\<exists>bt qt ft.
           data ''executed_amount_base'' = Some bt \<and>
           Decimal (decimal_of_text g) bt = Inr (executed_amount_base r) \<and>
           data ''executed_amount_quote'' = Some qt \<and>
           Decimal (decimal_of_text g) qt = Inr (executed_amount_quote r) \<and>
           data ''fee_paid'' = Some ft \<and> Decimal (decimal_of_text g) ft = Inr (fee_paid r)"
    and "data ''fee_asset'' = Some (fee_asset r)"
    and "data ''last_state'' = Some (last_state r)"
    and "client_order_id r = client_order_id retval"
    and "exchange_order_id r = exchange_order_id retval"
    and "trading_pair r = trading_pair retval"
    and "order_type r = order_type retval"
    and "trade_type r = trade_type retval"
    and "price r = price retval"
    and "amount r = amount retval"
  using assms
  by (auto simp: from_json_assign_def Let_def try_then_eq_Inr getitem_eq_Inr)

lemma from_json_populated:
  assumes "from_json g data = Inr r"
  shows "populated g data r"
proof -
  from assms obtain retval where c: "from_json_retval g data = Inr retval"
    and a: "from_json_assign g data retval = Inr r"
    by (auto simp: from_json_def try_then_eq_Inr)
  show ?thesis
    using from_json_retval_Inr [OF c] from_json_assign_Inr [OF a]
    by (auto simp: populated_def)
qed

lemma populated_present:
  assumes "populated g data r" and "key \<in> set required_keys"
  shows "data key \<noteq> None"
  using assms by (auto simp: populated_def required_keys_def)

lemma populated_converted:
  assumes "populated g data r" and "key \<in> set decimal_keys" and "data key = Some v"
  shows "\<exists>d. Decimal (decimal_of_text g) v = Inr d"
  using assms by (auto simp: populated_def decimal_keys_def)

subsection \<open>Well-formed snapshots are restored\<close>

lemma holdsD: "holds data key P \<Longrightarrow> \<exists>v. data key = Some v \<and> P v"
  by (simp add: holds_def split: option.splits)

lemma names_memberD: "names_member cls v \<Longrightarrow> \<exists>n x. v = PyStr n \<and> cls n = Some x"
  by (auto simp: names_member_def enum_member_def split: pyval.splits option.splits)

lemma convertibleD: "convertible g v \<Longrightarrow> \<exists>d. Decimal (decimal_of_text g) v = Inr d"
  by (simp add: convertible_def split: sum.splits)

text \<open>What a well-formed snapshot gives each step of \<^verbatim>\<open>from_json\<close>.\<close>

lemma snapshot_ok_steps:
  assumes "snapshot_ok g data"
  obtains a b c tn ot un tt pt p mt m s bt bd qt qd fa ft fd where
    "data ''client_order_id'' = Some a" "is_str a"
    "data ''exchange_order_id'' = Some b" "is_optional_str b"
    "data ''trading_pair'' = Some c" "is_str c"
    "data ''order_type'' = Some (PyStr tn)" "OrderType g tn = Some ot"
    "data ''trade_type'' = Some (PyStr un)" "TradeType g un = Some tt"
    "data ''price'' = Some pt" "Decimal (decimal_of_text g) pt = Inr p"
    "data ''amount'' = Some mt" "Decimal (decimal_of_text g) mt = Inr m"
    "data ''last_state'' = Some s" "is_str s"
    "data ''executed_amount_base'' = Some bt" "Decimal (decimal_of_text g) bt = Inr bd"
    "data ''executed_amount_quote'' = Some qt" "Decimal (decimal_of_text g) qt = Inr qd"
    "data ''fee_asset'' = Some fa"
    "data ''fee_paid'' = Some ft" "Decimal (decimal_of_text g) ft = Inr fd"
proof -
  from assms have
    h: "holds data ''client_order_id'' is_str" "holds data ''exchange_order_id'' is_optional_str"
      "holds data ''trading_pair'' is_str"
      "holds data ''order_type'' (names_member (OrderType g))"
      "holds data ''trade_type'' (names_member (TradeType g))"
      "holds data ''price'' (convertible g)" "holds data ''amount'' (convertible g)"
      "holds data ''last_state'' is_str"
      "holds data ''executed_amount_base'' (convertible g)"
      "holds data ''executed_amount_quote'' (convertible g)"
      "holds data ''fee_asset'' is_optional_str" "holds data ''fee_paid'' (convertible g)"
    by (simp_all add: snapshot_ok_def)
  from h(1) obtain a where 1: "data ''client_order_id'' = Some a" "is_str a"
    by (blast dest: holdsD)
  from h(2) obtain b where 2: "data ''exchange_order_id'' = Some b" "is_optional_str b"
    by (blast dest: holdsD)
  from h(3) obtain c where 3: "data ''trading_pair'' = Some c" "is_str c"
    by (blast dest: holdsD)
  from h(4) obtain tn ot where 4: "data ''order_type'' = Some (PyStr tn)" "OrderType g tn = Some ot"
    by (blast dest: holdsD names_memberD)
  from h(5) obtain un tt where 5: "data ''trade_type'' = Some (PyStr un)" "TradeType g un = Some tt"
    by (blast dest: holdsD names_memberD)
  from h(6) obtain pt p where 6: "data ''price'' = Some pt" "Decimal (decimal_of_text g) pt = Inr p"
    by (blast dest: holdsD convertibleD)
  from h(7) obtain mt m where 7: "data ''amount'' = Some mt" "Decimal (decimal_of_text g) mt = Inr m"
    by (blast dest: holdsD convertibleD)
  from h(8) obtain s where 8: "data ''last_state'' = Some s" "is_str s"
    by (blast dest: holdsD)
  from h(9) obtain bt bd where
    9: "data ''executed_amount_base'' = Some bt" "Decimal (decimal_of_text g) bt = Inr bd"
    by (blast dest: holdsD convertibleD)
  from h(10) obtain qt qd where
    10: "data ''executed_amount_quote'' = Some qt" "Decimal (decimal_of_text g) qt = Inr qd"
    by (blast dest: holdsD convertibleD)
  from h(11) obtain fa where 11: "data ''fee_asset'' = Some fa" by (blast dest: holdsD)
  from h(12) obtain ft fd where
    12: "data ''fee_paid'' = Some ft" "Decimal (decimal_of_text g) ft = Inr fd"
    by (blast dest: holdsD convertibleD)
  from 1 2 3 4 5 6 7 8 9 10 11 12 show thesis by (rule that)
qed

lemmas from_json_defs = from_json_def from_json_retval_def from_json_assign_def Let_def

lemma from_json_succeeds:
  assumes "snapshot_ok g data"
  shows "\<exists>r. from_json g data = Inr r"
  using assms
  by (elim snapshot_ok_steps)
    (simp add: from_json_defs getitem_Some getattr_attribute init_typed)

lemma snapshot_ok_set_last_state:
  assumes "snapshot_ok g data"
  shows "snapshot_ok g (data(''last_state'' \<mapsto> PyStr s))"
  using assms by (simp add: snapshot_ok_def holds_def is_str_def)

subsection \<open>The sample snapshot\<close>

lemma sample_restored: "from_json sample_globals sample_snapshot = Inr sample_order"
  by code_simp

lemma sample_snapshot_ok: "snapshot_ok sample_globals sample_snapshot"
  by code_simp

lemma sample_order_record: "order_record sample_globals sample_order"
  by code_simp

lemma sample_render_converts:
  "\<forall>v \<in> {price sample_order, amount sample_order, executed_amount_base sample_order,
          executed_amount_quote sample_order, fee_paid sample_order}.
     Decimal (decimal_of_text sample_globals) (sample_render v) = Inr v"
  by code_simp

subsection \<open>Round trip\<close>

text \<open>
  C1: for every order record \<open>r\<close> of the data model, the mapping with the documented
  key set built from the current attributes of \<open>r\<close> is restored by \<^verbatim>\<open>from_json\<close>
  to a record equal to \<open>r\<close> in every attribute, whatever values the fill attributes
  and the status have been changed to. The enum members are written by name, and each
  quantity in a rendering that \<^verbatim>\<open>Decimal\<close> converts back to it.
\<close>

theorem from_json_to_json:
  assumes "order_record g r"
    and "\<forall>v \<in> {price r, amount r, executed_amount_base r, executed_amount_quote r, fee_paid r}.
           Decimal (decimal_of_text g) (render v) = Inr v"
  shows "try_then (to_json render r) (from_json g) = Inr r"
proof -
  from assms(1) obtain c n where ot: "order_type r = PyEnum c n" "OrderType g n = Some (order_type r)"
    by (auto simp: order_record_def is_member_def split: pyval.splits)
  from assms(1) obtain c' n' where tt: "trade_type r = PyEnum c' n'" "TradeType g n' = Some (trade_type r)"
    by (auto simp: order_record_def is_member_def split: pyval.splits)
  from assms(2) have dec:
    "Decimal (decimal_of_text g) (render (price r)) = Inr (price r)"
    "Decimal (decimal_of_text g) (render (amount r)) = Inr (amount r)"
    "Decimal (decimal_of_text g) (render (executed_amount_base r)) = Inr (executed_amount_base r)"
    "Decimal (decimal_of_text g) (render (executed_amount_quote r)) = Inr (executed_amount_quote r)"
    "Decimal (decimal_of_text g) (render (fee_paid r)) = Inr (fee_paid r)"
    by simp_all
  from assms(1) have typed: "is_str (client_order_id r)" "is_optional_str (exchange_order_id r)"
    "is_str (trading_pair r)" "is_str (last_state r)"
    by (simp_all add: order_record_def)
  have "try_then (to_json render r) (from_json g) =
        Inr ((InFlightOrderBase_init g (client_order_id r) (exchange_order_id r) (trading_pair r)
               (order_type r) (trade_type r) (price r) (amount r) (last_state r))
             \<lparr> executed_amount_base := executed_amount_base r,
               executed_amount_quote := executed_amount_quote r,
               fee_asset := fee_asset r,
               fee_paid := fee_paid r,
               last_state := last_state r \<rparr>)"
    using ot(2) tt(2) dec
    by (simp add: to_json_def enum_name_def ot(1) tt(1) from_json_defs getitem_def
        getattr_attribute init_typed [OF typed])
  also have "\<dots> = Inr r"
    by (simp add: InFlightOrderBase_init_def)
  finally show ?thesis .
qed

text \<open>
  The sample order, with \<^verbatim>\<open>executed_amount_base = 1.5\<close> and \<^verbatim>\<open>fee_paid = 0.01\<close>
  written as text and status \<^verbatim>\<open>"partial-filled"\<close>.
\<close>

theorem from_json_to_json_witness:
  "order_record sample_globals sample_order \<and>
   sample_render (executed_amount_base sample_order) = PyStr ''1.5'' \<and>
   sample_render (fee_paid sample_order) = PyStr ''0.01'' \<and>
   sample_render (price sample_order) = price sample_order \<and>
   last_state sample_order = PyStr ''partial-filled'' \<and>
   try_then (to_json sample_render sample_order) (from_json sample_globals) = Inr sample_order"
proof -
  have "sample_render (executed_amount_base sample_order) = PyStr ''1.5''"
    and "sample_render (fee_paid sample_order) = PyStr ''0.01''"
    and "sample_render (price sample_order) = price sample_order"
    and "last_state sample_order = PyStr ''partial-filled''"
    by (simp_all add: sample_render_def sample_order_def)
  with sample_order_record from_json_to_json [OF sample_order_record sample_render_converts]
  show ?thesis by simp
qed

subsection \<open>The status properties\<close>

text \<open>
  C2: for every value of \<^verbatim>\<open>last_state\<close>, \<^verbatim>\<open>is_done\<close> is true exactly when it is
  \<^verbatim>\<open>"DONE"\<close> or \<^verbatim>\<open>"CANCEL"\<close>; in particular it is false for \<^verbatim>\<open>"filled"\<close>,
  \<^verbatim>\<open>"partial-canceled"\<close>, \<^verbatim>\<open>"LOCAL"\<close> and \<^verbatim>\<open>"partial-filled"\<close>.
\<close>

theorem is_done_iff:
  "(is_done r \<longleftrightarrow> last_state r = PyStr ''DONE'' \<or> last_state r = PyStr ''CANCEL'') \<and>
   \<not> is_done (r\<lparr>last_state := PyStr ''filled''\<rparr>) \<and>
   \<not> is_done (r\<lparr>last_state := PyStr ''partial-canceled''\<rparr>) \<and>
   \<not> is_done (r\<lparr>last_state := PyStr ''LOCAL''\<rparr>) \<and>
   \<not> is_done (r\<lparr>last_state := PyStr ''partial-filled''\<rparr>)"
  by (simp add: is_done_def)

theorem is_done_iff_witness:
  "is_done (sample_order\<lparr>last_state := PyStr ''DONE''\<rparr>) \<and>
   is_done (sample_order\<lparr>last_state := PyStr ''CANCEL''\<rparr>) \<and>
   \<not> is_done sample_order \<and>
   \<not> is_done (sample_order\<lparr>last_state := PyNone\<rparr>)"
  using is_done_iff [of "sample_order\<lparr>last_state := PyStr ''DONE''\<rparr>"]
    is_done_iff [of "sample_order\<lparr>last_state := PyStr ''CANCEL''\<rparr>"]
    is_done_iff [of sample_order]
    is_done_iff [of "sample_order\<lparr>last_state := PyNone\<rparr>"]
  by (simp add: sample_order_def)

text \<open>
  C3: for every value of \<^verbatim>\<open>last_state\<close>, \<^verbatim>\<open>is_failure\<close> and \<^verbatim>\<open>is_cancelled\<close>
  agree, and each is true exactly when \<^verbatim>\<open>last_state\<close> is \<^verbatim>\<open>"CANCEL"\<close>.
\<close>

theorem is_failure_is_cancelled:
  "is_failure r = is_cancelled r \<and>
   (is_failure r \<longleftrightarrow> last_state r = PyStr ''CANCEL'') \<and>
   (is_cancelled r \<longleftrightarrow> last_state r = PyStr ''CANCEL'')"
  by (simp add: is_failure_def is_cancelled_def)

theorem is_failure_is_cancelled_witness:
  "is_failure (sample_order\<lparr>last_state := PyStr ''CANCEL''\<rparr>) \<and>
   is_cancelled (sample_order\<lparr>last_state := PyStr ''CANCEL''\<rparr>) \<and>
   \<not> is_failure (sample_order\<lparr>last_state := PyStr ''DONE''\<rparr>) \<and>
   \<not> is_cancelled (sample_order\<lparr>last_state := PyStr ''DONE''\<rparr>)"
  using is_failure_is_cancelled [of "sample_order\<lparr>last_state := PyStr ''CANCEL''\<rparr>"]
    is_failure_is_cancelled [of "sample_order\<lparr>last_state := PyStr ''DONE''\<rparr>"]
  by simp

text \<open>
  C7: a record constructed without \<^verbatim>\<open>initial_state\<close> has \<^verbatim>\<open>last_state\<close> equal to
  \<^verbatim>\<open>"LOCAL"\<close>, so \<^verbatim>\<open>is_local\<close> is true and \<^verbatim>\<open>is_done\<close> false for it; such a
  record is constructed whenever the identifiers and the trading pair have the
  annotated types; and \<^verbatim>\<open>is_local\<close> is true exactly when \<^verbatim>\<open>last_state\<close> is
  \<^verbatim>\<open>"LOCAL"\<close>.
\<close>

theorem init_default_state:
  "(KucoinInFlightOrder_init g a b c d e f h None = Inr r \<longrightarrow>
      last_state r = PyStr ''LOCAL'' \<and> is_local r \<and> \<not> is_done r) \<and>
   (is_str a \<and> is_optional_str b \<and> is_str c \<longrightarrow>
      (\<exists>r. KucoinInFlightOrder_init g a b c d e f h None = Inr r)) \<and>
   (is_local r' \<longleftrightarrow> last_state r' = PyStr ''LOCAL'')"
proof (intro conjI impI)
  assume "KucoinInFlightOrder_init g a b c d e f h None = Inr r"
  then have "r = InFlightOrderBase_init g a b c d e f h (PyStr ''LOCAL'')"
    by (auto dest: init_Inr)
  then show "last_state r = PyStr ''LOCAL''" and "is_local r" and "\<not> is_done r"
    by (simp_all add: InFlightOrderBase_init_def is_local_def is_done_def)
next
  assume "is_str a \<and> is_optional_str b \<and> is_str c"
  then show "\<exists>r. KucoinInFlightOrder_init g a b c d e f h None = Inr r"
    by (simp add: init_default_typed)
next
  show "is_local r' \<longleftrightarrow> last_state r' = PyStr ''LOCAL''"
    by (simp add: is_local_def)
qed

text \<open>
  The order of the spec's scenario: \<^verbatim>\<open>"C1"\<close>, no exchange identifier,
  \<^verbatim>\<open>"ETH-USDT"\<close>, a limit buy of 2.0 at 10.00.
\<close>

theorem init_default_state_witness:
  "(\<exists>r. KucoinInFlightOrder_init sample_globals (PyStr ''C1'') PyNone (PyStr ''ETH-USDT'')
          (PyEnum ''OrderType'' ''LIMIT'') (PyEnum ''TradeType'' ''BUY'')
          (PyDecimal (Number False 1000 (- 2))) (PyDecimal (Number False 20 (- 1))) None = Inr r \<and>
        last_state r = PyStr ''LOCAL'' \<and> is_local r \<and> \<not> is_done r) \<and>
   \<not> is_local sample_order"
proof -
  have typed: "is_str (PyStr ''C1'') \<and> is_optional_str PyNone \<and> is_str (PyStr ''ETH-USDT'')"
    by (simp add: is_str_def is_optional_str_def)
  note inst = init_default_state [of sample_globals "PyStr ''C1''" PyNone "PyStr ''ETH-USDT''"
      "PyEnum ''OrderType'' ''LIMIT''" "PyEnum ''TradeType'' ''BUY''"
      "PyDecimal (Number False 1000 (- 2))" "PyDecimal (Number False 20 (- 1))" _ sample_order]
  from inst typed obtain r :: KucoinInFlightOrder where
    r: "KucoinInFlightOrder_init sample_globals (PyStr ''C1'') PyNone (PyStr ''ETH-USDT'')
          (PyEnum ''OrderType'' ''LIMIT'') (PyEnum ''TradeType'' ''BUY'')
          (PyDecimal (Number False 1000 (- 2))) (PyDecimal (Number False 20 (- 1))) None = Inr r"
    by blast
  with init_default_state [of sample_globals "PyStr ''C1''" PyNone "PyStr ''ETH-USDT''"
      "PyEnum ''OrderType'' ''LIMIT''" "PyEnum ''TradeType'' ''BUY''"
      "PyDecimal (Number False 1000 (- 2))" "PyDecimal (Number False 20 (- 1))" r sample_order]
  have "last_state r = PyStr ''LOCAL'' \<and> is_local r \<and> \<not> is_done r"
    and "\<not> is_local sample_order"
    by (simp_all add: sample_order_def)
  with r show ?thesis by blast
qed

subsection \<open>What a restored record holds\<close>

text \<open>
  C4: whenever \<^verbatim>\<open>from_json\<close> returns a record, the object it constructed first was
  built with the snapshot's \<^verbatim>\<open>last_state\<close> as \<^verbatim>\<open>initial_state\<close> (not the default),
  the returned record's \<^verbatim>\<open>last_state\<close> is the snapshot's, and the final assignment
  of \<^verbatim>\<open>last_state\<close> changes nothing on the constructed object.
\<close>

theorem from_json_last_state:
  assumes "from_json g data = Inr r"
  shows "\<exists>a b c d e f h retval.
           KucoinInFlightOrder_init g a b c d e f h (Some (last_state r)) = Inr retval \<and>
           from_json_retval g data = Inr retval \<and>
           data ''last_state'' = Some (last_state r) \<and>
           retval\<lparr>last_state := last_state r\<rparr> = retval"
proof -
  from assms obtain retval where c: "from_json_retval g data = Inr retval"
    and a: "from_json_assign g data retval = Inr r"
    by (auto simp: from_json_def try_then_eq_Inr)
  from from_json_retval_constructed [OF c] obtain a b c d e f h s where
    s: "data ''last_state'' = Some s"
    and retval: "KucoinInFlightOrder_init g a b c d e f h (Some s) = Inr retval"
    by blast
  from from_json_assign_Inr(3) [OF a] s have eq: "s = last_state r"
    by simp
  from init_Inr [OF retval] have "last_state retval = s"
    by (simp add: InFlightOrderBase_init_def)
  with eq have "retval\<lparr>last_state := last_state r\<rparr> = retval"
    by simp
  with c s retval eq show ?thesis by blast
qed

theorem from_json_last_state_witness:
  "from_json sample_globals sample_snapshot = Inr sample_order \<and>
   sample_snapshot ''last_state'' = Some (PyStr ''partial-filled'') \<and>
   last_state sample_order = PyStr ''partial-filled''"
proof -
  from from_json_last_state [OF sample_restored]
  have "sample_snapshot ''last_state'' = Some (last_state sample_order)"
    by blast
  moreover have "last_state sample_order = PyStr ''partial-filled''"
    by (simp add: sample_order_def)
  ultimately show ?thesis using sample_restored by simp
qed

text \<open>
  C8: \<^verbatim>\<open>from_json\<close> is all or nothing. A record it returns has all twelve attributes
  populated from the snapshot; and a value of \<^verbatim>\<open>executed_amount_base\<close>,
  \<^verbatim>\<open>executed_amount_quote\<close> or \<^verbatim>\<open>fee_paid\<close> that \<^verbatim>\<open>Decimal\<close> rejects, which is
  met only after the object has been constructed, still leaves no record returned.
\<close>

theorem from_json_atomic:
  "(from_json g data = Inr r \<longrightarrow> populated g data r) \<and>
   (key \<in> {''executed_amount_base'', ''executed_amount_quote'', ''fee_paid''} \<and>
    data key = Some v \<and> Decimal (decimal_of_text g) v = Inl e \<longrightarrow> isl (from_json g data))"
proof (intro conjI impI)
  assume "from_json g data = Inr r"
  then show "populated g data r" by (rule from_json_populated)
next
  assume h: "key \<in> {''executed_amount_base'', ''executed_amount_quote'', ''fee_paid''} \<and>
    data key = Some v \<and> Decimal (decimal_of_text g) v = Inl e"
  show "isl (from_json g data)"
  proof (cases "from_json g data")
    case (Inl e')
    then show ?thesis by simp
  next
    case (Inr r')
    then have "populated g data r'" by (rule from_json_populated)
    moreover from h have "key \<in> set decimal_keys" by (auto simp: decimal_keys_def)
    ultimately have "\<exists>d. Decimal (decimal_of_text g) v = Inr d"
      using h by (blast intro: populated_converted)
    with h show ?thesis by simp
  qed
qed

theorem from_json_atomic_witness:
  "populated sample_globals sample_snapshot sample_order \<and>
   Decimal (decimal_of_text sample_globals) (PyStr ''abc'') = Inl InvalidOperation \<and>
   isl (from_json sample_globals (sample_snapshot(''fee_paid'' \<mapsto> PyStr ''abc'')))"
proof -
  have 1: "from_json sample_globals sample_snapshot = Inr sample_order"
    by (rule sample_restored)
  have 2: "Decimal (decimal_of_text sample_globals) (PyStr ''abc'') = Inl InvalidOperation"
    by code_simp
  have 3: "(sample_snapshot(''fee_paid'' \<mapsto> PyStr ''abc'')) ''fee_paid'' = Some (PyStr ''abc'')"
    by simp
  from from_json_atomic [of sample_globals sample_snapshot sample_order] 1
  have "populated sample_globals sample_snapshot sample_order" by simp
  moreover
  from from_json_atomic [of sample_globals "sample_snapshot(''fee_paid'' \<mapsto> PyStr ''abc'')" _
      "''fee_paid''" "PyStr ''abc''" InvalidOperation] 2 3
  have "isl (from_json sample_globals (sample_snapshot(''fee_paid'' \<mapsto> PyStr ''abc'')))"
    by simp
  ultimately show ?thesis using 2 by simp
qed

subsection \<open>Malformed snapshots\<close>

text \<open>
  C5, as the code has it: a snapshot whose \<^verbatim>\<open>order_type\<close> or \<^verbatim>\<open>trade_type\<close> string
  names no attribute at all of its enum class is never restored to a record. The error
  is the \<^verbatim>\<open>AttributeError\<close> of that name when the three keys read before it are
  present and, for \<^verbatim>\<open>trade_type\<close>, when \<^verbatim>\<open>order_type\<close> holds the name of an
  attribute of its class.
\<close>

theorem from_json_unknown_enum_name:
  "((data ''order_type'' = Some (PyStr n) \<and> OrderType g n = None) \<or>
    (data ''trade_type'' = Some (PyStr n) \<and> TradeType g n = None)
      \<longrightarrow> isl (from_json g data)) \<and>
   ({''client_order_id'', ''exchange_order_id'', ''trading_pair''} \<subseteq> dom data \<and>
    data ''order_type'' = Some (PyStr n) \<and> OrderType g n = None
      \<longrightarrow> from_json g data = Inl (AttributeError n)) \<and>
   ({''client_order_id'', ''exchange_order_id'', ''trading_pair''} \<subseteq> dom data \<and>
    data ''order_type'' = Some (PyStr m) \<and> OrderType g m \<noteq> None \<and>
    data ''trade_type'' = Some (PyStr n) \<and> TradeType g n = None
      \<longrightarrow> from_json g data = Inl (AttributeError n))"
proof (intro conjI impI)
  assume bad: "(data ''order_type'' = Some (PyStr n) \<and> OrderType g n = None) \<or>
    (data ''trade_type'' = Some (PyStr n) \<and> TradeType g n = None)"
  show "isl (from_json g data)"
  proof (cases "from_json g data")
    case (Inl e)
    then show ?thesis by simp
  next
    case (Inr r)
    then have "populated g data r" by (rule from_json_populated)
    then have "map_option (getattr (OrderType g)) (data ''order_type'') = Some (Inr (order_type r))"
      and "map_option (getattr (TradeType g)) (data ''trade_type'') = Some (Inr (trade_type r))"
      by (simp_all add: populated_def)
    with bad show ?thesis by (auto simp: getattr_unknown)
  qed
next
  assume "{''client_order_id'', ''exchange_order_id'', ''trading_pair''} \<subseteq> dom data \<and>
    data ''order_type'' = Some (PyStr n) \<and> OrderType g n = None"
  then show "from_json g data = Inl (AttributeError n)"
    by (auto simp: from_json_defs getitem_def getattr_unknown)
next
  assume "{''client_order_id'', ''exchange_order_id'', ''trading_pair''} \<subseteq> dom data \<and>
    data ''order_type'' = Some (PyStr m) \<and> OrderType g m \<noteq> None \<and>
    data ''trade_type'' = Some (PyStr n) \<and> TradeType g n = None"
  then show "from_json g data = Inl (AttributeError n)"
    by (auto simp: from_json_defs getitem_def getattr_unknown getattr_attribute)
qed

theorem from_json_unknown_enum_name_witness:
  "OrderType sample_globals ''NOT_A_TYPE'' = None \<and>
   from_json sample_globals (sample_snapshot(''order_type'' \<mapsto> PyStr ''NOT_A_TYPE''))
     = Inl (AttributeError ''NOT_A_TYPE'') \<and>
   OrderType sample_globals ''LIMIT'' \<noteq> None \<and>
   TradeType sample_globals ''HOLD'' = None \<and>
   from_json sample_globals (sample_snapshot(''trade_type'' \<mapsto> PyStr ''HOLD''))
     = Inl (AttributeError ''HOLD'')"
proof -
  have keys: "{''client_order_id'', ''exchange_order_id'', ''trading_pair''}
      \<subseteq> dom (sample_snapshot(''order_type'' \<mapsto> PyStr ''NOT_A_TYPE''))"
    "{''client_order_id'', ''exchange_order_id'', ''trading_pair''}
      \<subseteq> dom (sample_snapshot(''trade_type'' \<mapsto> PyStr ''HOLD''))"
    by (simp_all add: sample_snapshot_def)
  have names: "OrderType sample_globals ''NOT_A_TYPE'' = None"
    "OrderType sample_globals ''LIMIT'' \<noteq> None"
    "TradeType sample_globals ''HOLD'' = None"
    by (simp_all add: sample_globals_def sample_OrderType_def sample_TradeType_def)
  have vals: "(sample_snapshot(''trade_type'' \<mapsto> PyStr ''HOLD'')) ''order_type'' = Some (PyStr ''LIMIT'')"
    by (simp add: sample_snapshot_def)
  from from_json_unknown_enum_name
    [of "sample_snapshot(''order_type'' \<mapsto> PyStr ''NOT_A_TYPE'')" "''NOT_A_TYPE''" sample_globals]
    keys(1) names(1)
  have 1: "from_json sample_globals (sample_snapshot(''order_type'' \<mapsto> PyStr ''NOT_A_TYPE''))
     = Inl (AttributeError ''NOT_A_TYPE'')"
    by simp
  from from_json_unknown_enum_name
    [of "sample_snapshot(''trade_type'' \<mapsto> PyStr ''HOLD'')" "''HOLD''" sample_globals "''LIMIT''"]
    keys(2) names(2,3) vals
  have 2: "from_json sample_globals (sample_snapshot(''trade_type'' \<mapsto> PyStr ''HOLD''))
     = Inl (AttributeError ''HOLD'')"
    by simp
  from 1 2 names show ?thesis by simp
qed

text \<open>
  The lookup is by attribute, not by member: \<^verbatim>\<open>"__name__"\<close> names no member of
  \<^verbatim>\<open>OrderType\<close>, and the snapshot is restored, with the class's name as the order
  type.
\<close>

theorem from_json_unknown_enum_name_counterexample:
  "\<not> enum_member (OrderType sample_globals) ''__name__'' \<and>
   from_json sample_globals (sample_snapshot(''order_type'' \<mapsto> PyStr ''__name__''))
     = Inr (sample_order\<lparr>order_type := PyStr ''OrderType''\<rparr>)"
  by code_simp

lemma convert_decimal_key:
  assumes "key \<in> set decimal_keys"
  shows "convert g key = Decimal (decimal_of_text g)"
proof -
  from assms have
    "key = ''price'' \<or> key = ''amount'' \<or> key = ''executed_amount_base'' \<or>
     key = ''executed_amount_quote'' \<or> key = ''fee_paid''"
    by (simp add: decimal_keys_def)
  then show ?thesis
    by (elim disjE) (simp_all add: fun_eq_iff convert_def decimal_keys_def)
qed

lemma decimal_key_required:
  assumes "key \<in> set decimal_keys"
  shows "key \<in> set required_keys"
proof -
  from assms have
    "key = ''price'' \<or> key = ''amount'' \<or> key = ''executed_amount_base'' \<or>
     key = ''executed_amount_quote'' \<or> key = ''fee_paid''"
    by (simp add: decimal_keys_def)
  then show ?thesis
    by (elim disjE) (simp_all add: required_keys_def)
qed

text \<open>
  C6, as the code has it: a snapshot in which a decimal-valued key holds text that the
  parser rejects is never restored to a record; and the error is
  \<^verbatim>\<open>InvalidOperation\<close> whenever the evaluation reaches that key, that is, whenever
  no step before its subscript raises.
\<close>

theorem from_json_unparsable_decimal:
  "(key \<in> set decimal_keys \<and> data key = Some (PyStr t) \<and> decimal_of_text g t = None
      \<longrightarrow> isl (from_json g data)) \<and>
   (key \<in> set decimal_keys \<and> data key = Some (PyStr t) \<and> decimal_of_text g t = None \<and>
    reaches g data key
      \<longrightarrow> from_json g data = Inl InvalidOperation)"
proof (intro conjI impI)
  assume h: "key \<in> set decimal_keys \<and> data key = Some (PyStr t) \<and> decimal_of_text g t = None"
  show "isl (from_json g data)"
  proof (cases "from_json g data")
    case (Inl e)
    then show ?thesis by simp
  next
    case (Inr r)
    then have "populated g data r" by (rule from_json_populated)
    with h have "\<exists>d. Decimal (decimal_of_text g) (PyStr t) = Inr d"
      by (blast intro: populated_converted)
    with h show ?thesis by (simp add: Decimal_unparsable)
  qed
next
  assume h: "key \<in> set decimal_keys \<and> data key = Some (PyStr t) \<and> decimal_of_text g t = None \<and>
    reaches g data key"
  then have k: "key \<in> set decimal_keys" and r: "reaches g data key" by simp_all
  from h have "field_value g data key = Inl InvalidOperation"
    by (simp add: field_value_def getitem_Some convert_decimal_key [OF k] Decimal_unparsable)
  with decimal_key_required [OF k] r show "from_json g data = Inl InvalidOperation"
    by (rule first_failure)
qed

text \<open>
  An unparsable price, alone, together with an unparsable amount, and together with a
  missing \<^verbatim>\<open>fee_paid\<close>; and an unparsable \<^verbatim>\<open>fee_paid\<close>, which is met after the
  construction.
\<close>

theorem from_json_unparsable_decimal_witness:
  "decimal_of_text sample_globals ''abc'' = None \<and>
   reaches sample_globals (sample_snapshot(''price'' \<mapsto> PyStr ''abc'')) ''price'' \<and>
   from_json sample_globals (sample_snapshot(''price'' \<mapsto> PyStr ''abc'')) = Inl InvalidOperation \<and>
   from_json sample_globals
       (sample_snapshot(''price'' \<mapsto> PyStr ''abc'', ''amount'' \<mapsto> PyStr ''xyz''))
     = Inl InvalidOperation \<and>
   from_json sample_globals (sample_snapshot(''price'' \<mapsto> PyStr ''abc'', ''fee_paid'' := None))
     = Inl InvalidOperation \<and>
   reaches sample_globals (sample_snapshot(''fee_paid'' \<mapsto> PyStr ''abc'')) ''fee_paid'' \<and>
   from_json sample_globals (sample_snapshot(''fee_paid'' \<mapsto> PyStr ''abc'')) = Inl InvalidOperation"
proof -
  have abc: "decimal_of_text sample_globals ''abc'' = None"
    by code_simp
  have keys: "''price'' \<in> set decimal_keys" "''fee_paid'' \<in> set decimal_keys"
    by (simp_all add: decimal_keys_def)
  have r1: "reaches sample_globals (sample_snapshot(''price'' \<mapsto> PyStr ''abc'')) ''price''"
    by code_simp
  have r2: "reaches sample_globals
      (sample_snapshot(''price'' \<mapsto> PyStr ''abc'', ''amount'' \<mapsto> PyStr ''xyz'')) ''price''"
    by code_simp
  have r3: "reaches sample_globals
      (sample_snapshot(''price'' \<mapsto> PyStr ''abc'', ''fee_paid'' := None)) ''price''"
    by code_simp
  have r4: "reaches sample_globals (sample_snapshot(''fee_paid'' \<mapsto> PyStr ''abc'')) ''fee_paid''"
    by code_simp
  from from_json_unparsable_decimal
    [of "''price''" "sample_snapshot(''price'' \<mapsto> PyStr ''abc'')" "''abc''" sample_globals]
    abc keys(1) r1
  have 1: "from_json sample_globals (sample_snapshot(''price'' \<mapsto> PyStr ''abc''))
      = Inl InvalidOperation"
    by simp
  from from_json_unparsable_decimal
    [of "''price''" "sample_snapshot(''price'' \<mapsto> PyStr ''abc'', ''amount'' \<mapsto> PyStr ''xyz'')"
      "''abc''" sample_globals]
    abc keys(1) r2
  have 2: "from_json sample_globals
      (sample_snapshot(''price'' \<mapsto> PyStr ''abc'', ''amount'' \<mapsto> PyStr ''xyz''))
      = Inl InvalidOperation"
    by simp
  from from_json_unparsable_decimal
    [of "''price''" "sample_snapshot(''price'' \<mapsto> PyStr ''abc'', ''fee_paid'' := None)"
      "''abc''" sample_globals]
    abc keys(1) r3
  have 3: "from_json sample_globals
      (sample_snapshot(''price'' \<mapsto> PyStr ''abc'', ''fee_paid'' := None))
      = Inl InvalidOperation"
    by simp
  from from_json_unparsable_decimal
    [of "''fee_paid''" "sample_snapshot(''fee_paid'' \<mapsto> PyStr ''abc'')" "''abc''" sample_globals]
    abc keys(2) r4
  have 4: "from_json sample_globals (sample_snapshot(''fee_paid'' \<mapsto> PyStr ''abc''))
      = Inl InvalidOperation"
    by simp
  from abc r1 r4 1 2 3 4 show ?thesis by simp
qed

text \<open>
  With an unknown \<^verbatim>\<open>order_type\<close> as well, the enum lookup comes first and the
  error is its \<^verbatim>\<open>AttributeError\<close>.
\<close>

theorem from_json_unparsable_decimal_counterexample:
  "(sample_snapshot(''order_type'' \<mapsto> PyStr ''NOT_A_TYPE'', ''price'' \<mapsto> PyStr ''abc'')) ''price''
     = Some (PyStr ''abc'') \<and>
   decimal_of_text sample_globals ''abc'' = None \<and>
   from_json sample_globals
       (sample_snapshot(''order_type'' \<mapsto> PyStr ''NOT_A_TYPE'', ''price'' \<mapsto> PyStr ''abc''))
     = Inl (AttributeError ''NOT_A_TYPE'') \<and>
   from_json sample_globals
       (sample_snapshot(''order_type'' \<mapsto> PyStr ''NOT_A_TYPE'', ''price'' \<mapsto> PyStr ''abc''))
     \<noteq> Inl InvalidOperation"
  by code_simp

text \<open>
  C9, as the code has it: a mapping that lacks one of the twelve keys is never restored
  to a record, and no default stands in for the missing value; and the error is the
  \<^verbatim>\<open>KeyError\<close> of that key whenever the evaluation reaches it, that is, whenever no
  step before its subscript raises.
\<close>

theorem from_json_missing_required_key:
  "(key \<in> set required_keys \<and> data key = None \<longrightarrow> isl (from_json g data)) \<and>
   (key \<in> set required_keys \<and> data key = None \<and> reaches g data key
      \<longrightarrow> from_json g data = Inl (KeyError key))"
proof (intro conjI impI)
  assume h: "key \<in> set required_keys \<and> data key = None"
  show "isl (from_json g data)"
  proof (cases "from_json g data")
    case (Inl e)
    then show ?thesis by simp
  next
    case (Inr r)
    then have p: "populated g data r" by (rule from_json_populated)
    from h have k: "key \<in> set required_keys" and n: "data key = None" by simp_all
    from populated_present [OF p k] n show ?thesis by simp
  qed
next
  assume h: "key \<in> set required_keys \<and> data key = None \<and> reaches g data key"
  then have k: "key \<in> set required_keys" and r: "reaches g data key" by simp_all
  from h have "field_value g data key = Inl (KeyError key)"
    by (simp add: field_value_def getitem_None)
  with k r show "from_json g data = Inl (KeyError key)"
    by (rule first_failure)
qed

text \<open>
  The empty mapping, which lacks the first key; a snapshot without \<^verbatim>\<open>price\<close> and
  without \<^verbatim>\<open>fee_paid\<close>; and a snapshot without \<^verbatim>\<open>fee_paid\<close> only.
\<close>

theorem from_json_missing_required_key_witness:
  "from_json sample_globals Map.empty = Inl (KeyError ''client_order_id'') \<and>
   reaches sample_globals (sample_snapshot(''price'' := None, ''fee_paid'' := None)) ''price'' \<and>
   from_json sample_globals (sample_snapshot(''price'' := None, ''fee_paid'' := None))
     = Inl (KeyError ''price'') \<and>
   reaches sample_globals (sample_snapshot(''fee_paid'' := None)) ''fee_paid'' \<and>
   from_json sample_globals (sample_snapshot(''fee_paid'' := None)) = Inl (KeyError ''fee_paid'')"
proof -
  have keys: "''client_order_id'' \<in> set required_keys" "''price'' \<in> set required_keys"
    "''fee_paid'' \<in> set required_keys"
    by (simp_all add: required_keys_def)
  have r0: "reaches sample_globals Map.empty ''client_order_id''"
    by code_simp
  have r1: "reaches sample_globals
      (sample_snapshot(''price'' := None, ''fee_paid'' := None)) ''price''"
    by code_simp
  have r2: "reaches sample_globals (sample_snapshot(''fee_paid'' := None)) ''fee_paid''"
    by code_simp
  from from_json_missing_required_key [of "''client_order_id''" Map.empty sample_globals]
    keys(1) r0
  have 0: "from_json sample_globals Map.empty = Inl (KeyError ''client_order_id'')"
    by simp
  from from_json_missing_required_key
    [of "''price''" "sample_snapshot(''price'' := None, ''fee_paid'' := None)" sample_globals]
    keys(2) r1
  have 1: "from_json sample_globals (sample_snapshot(''price'' := None, ''fee_paid'' := None))
      = Inl (KeyError ''price'')"
    by simp
  from from_json_missing_required_key
    [of "''fee_paid''" "sample_snapshot(''fee_paid'' := None)" sample_globals]
    keys(3) r2
  have 2: "from_json sample_globals (sample_snapshot(''fee_paid'' := None))
      = Inl (KeyError ''fee_paid'')"
    by simp
  from r1 r2 0 1 2 show ?thesis by simp
qed

text \<open>
  With an unparsable \<^verbatim>\<open>price\<close> as well, the conversion of the price comes before
  the lookup of \<^verbatim>\<open>fee_paid\<close> and the error is \<^verbatim>\<open>InvalidOperation\<close>.
\<close>

theorem from_json_missing_required_key_counterexample:
  "(sample_snapshot(''price'' \<mapsto> PyStr ''abc'', ''fee_paid'' := None)) ''fee_paid'' = None \<and>
   from_json sample_globals (sample_snapshot(''price'' \<mapsto> PyStr ''abc'', ''fee_paid'' := None))
     = Inl InvalidOperation \<and>
   from_json sample_globals (sample_snapshot(''price'' \<mapsto> PyStr ''abc'', ''fee_paid'' := None))
     \<noteq> Inl (KeyError ''fee_paid'')"
  by code_simp

subsection \<open>No status vocabulary\<close>

text \<open>
  C10: the status string is checked against no vocabulary. For every string \<open>s\<close>, the
  constructor called with \<^verbatim>\<open>initial_state = s\<close> and identifiers and trading pair of
  the annotated types returns a record with that status, and a snapshot that is
  well-formed in its other keys and has \<^verbatim>\<open>last_state = s\<close> is restored to a record
  with that status; on both, and on whatever else the constructor returns for
  \<open>s\<close>, each of the four properties is defined and is false unless \<open>s\<close> is one of
  the literals it matches.
\<close>

theorem last_state_not_validated:
  "(is_str a \<and> is_optional_str b \<and> is_str c \<longrightarrow>
      (\<exists>r. KucoinInFlightOrder_init g a b c d e f h (Some (PyStr s)) = Inr r \<and>
           last_state r = PyStr s \<and>
           status_flags r
             = (s = ''DONE'' \<or> s = ''CANCEL'', s = ''CANCEL'', s = ''CANCEL'', s = ''LOCAL''))) \<and>
   (KucoinInFlightOrder_init g a b c d e f h (Some (PyStr s)) = Inr r' \<longrightarrow>
      last_state r' = PyStr s \<and>
      status_flags r'
        = (s = ''DONE'' \<or> s = ''CANCEL'', s = ''CANCEL'', s = ''CANCEL'', s = ''LOCAL'')) \<and>
   (snapshot_ok g data \<longrightarrow>
      (\<exists>r. from_json g (data(''last_state'' \<mapsto> PyStr s)) = Inr r \<and>
           last_state r = PyStr s \<and>
           status_flags r
             = (s = ''DONE'' \<or> s = ''CANCEL'', s = ''CANCEL'', s = ''CANCEL'', s = ''LOCAL'')))"
proof -
  have flags: "status_flags x
      = (s = ''DONE'' \<or> s = ''CANCEL'', s = ''CANCEL'', s = ''CANCEL'', s = ''LOCAL'')"
    if "last_state x = PyStr s" for x
    using that
    by (simp add: status_flags_def is_done_def is_failure_def is_cancelled_def is_local_def)
  have constructed: "last_state x = PyStr s"
    if "KucoinInFlightOrder_init g a b c d e f h (Some (PyStr s)) = Inr x" for x
    using init_Inr [OF that] by (simp add: InFlightOrderBase_init_def)
  show ?thesis
  proof (intro conjI impI)
    assume "is_str a \<and> is_optional_str b \<and> is_str c"
    then have "KucoinInFlightOrder_init g a b c d e f h (Some (PyStr s))
        = Inr (InFlightOrderBase_init g a b c d e f h (PyStr s))"
      by (simp add: init_typed is_str_def)
    then show "\<exists>r. KucoinInFlightOrder_init g a b c d e f h (Some (PyStr s)) = Inr r \<and>
        last_state r = PyStr s \<and>
        status_flags r
          = (s = ''DONE'' \<or> s = ''CANCEL'', s = ''CANCEL'', s = ''CANCEL'', s = ''LOCAL'')"
      using constructed flags by blast
  next
    assume "KucoinInFlightOrder_init g a b c d e f h (Some (PyStr s)) = Inr r'"
    then show "last_state r' = PyStr s"
      and "status_flags r'
        = (s = ''DONE'' \<or> s = ''CANCEL'', s = ''CANCEL'', s = ''CANCEL'', s = ''LOCAL'')"
      using constructed flags by blast+
  next
    assume "snapshot_ok g data"
    then have "snapshot_ok g (data(''last_state'' \<mapsto> PyStr s))"
      by (rule snapshot_ok_set_last_state)
    then obtain r where r: "from_json g (data(''last_state'' \<mapsto> PyStr s)) = Inr r"
      using from_json_succeeds by blast
    then have "populated g (data(''last_state'' \<mapsto> PyStr s)) r"
      by (rule from_json_populated)
    then have "last_state r = PyStr s"
      by (simp add: populated_def)
    with r flags
    show "\<exists>r. from_json g (data(''last_state'' \<mapsto> PyStr s)) = Inr r \<and> last_state r = PyStr s \<and>
      status_flags r = (s = ''DONE'' \<or> s = ''CANCEL'', s = ''CANCEL'', s = ''CANCEL'', s = ''LOCAL'')"
      by blast
  qed
qed

text \<open>A status outside every documented vocabulary, constructed and restored.\<close>

theorem last_state_not_validated_witness:
  "snapshot_ok sample_globals sample_snapshot \<and>
   from_json sample_globals (sample_snapshot(''last_state'' \<mapsto> PyStr ''frobnicated''))
     = Inr (sample_order\<lparr>last_state := PyStr ''frobnicated''\<rparr>) \<and>
   status_flags (sample_order\<lparr>last_state := PyStr ''frobnicated''\<rparr>) = (False, False, False, False) \<and>
   (\<exists>r. KucoinInFlightOrder_init sample_globals (PyStr ''C1'') PyNone (PyStr ''ETH-USDT'')
          (PyEnum ''OrderType'' ''LIMIT'') (PyEnum ''TradeType'' ''BUY'')
          (PyDecimal (Number False 1000 (- 2))) (PyDecimal (Number False 20 (- 1)))
          (Some (PyStr ''frobnicated'')) = Inr r \<and>
        last_state r = PyStr ''frobnicated'' \<and>
        status_flags r = (False, False, False, False))"
proof -
  have run: "from_json sample_globals (sample_snapshot(''last_state'' \<mapsto> PyStr ''frobnicated''))
     = Inr (sample_order\<lparr>last_state := PyStr ''frobnicated''\<rparr>)"
    by code_simp
  have typed: "is_str (PyStr ''C1'') \<and> is_optional_str PyNone \<and> is_str (PyStr ''ETH-USDT'')"
    by (simp add: is_str_def is_optional_str_def)
  note inst = last_state_not_validated
    [of "PyStr ''C1''" PyNone "PyStr ''ETH-USDT''" sample_globals
      "PyEnum ''OrderType'' ''LIMIT''" "PyEnum ''TradeType'' ''BUY''"
      "PyDecimal (Number False 1000 (- 2))" "PyDecimal (Number False 20 (- 1))"
      "''frobnicated''" _ sample_snapshot]
  from inst sample_snapshot_ok
  have "\<exists>r. from_json sample_globals (sample_snapshot(''last_state'' \<mapsto> PyStr ''frobnicated''))
           = Inr r \<and>
         last_state r = PyStr ''frobnicated'' \<and>
         status_flags r = (False, False, False, False)"
    by simp
  with run have 1: "status_flags (sample_order\<lparr>last_state := PyStr ''frobnicated''\<rparr>)
      = (False, False, False, False)"
    by auto
  from inst typed
  have 2: "\<exists>r. KucoinInFlightOrder_init sample_globals (PyStr ''C1'') PyNone (PyStr ''ETH-USDT'')
          (PyEnum ''OrderType'' ''LIMIT'') (PyEnum ''TradeType'' ''BUY'')
          (PyDecimal (Number False 1000 (- 2))) (PyDecimal (Number False 20 (- 1)))
          (Some (PyStr ''frobnicated'')) = Inr r \<and>
        last_state r = PyStr ''frobnicated'' \<and>
        status_flags r = (False, False, False, False)"
    by simp
  from sample_snapshot_ok run 1 2 show ?thesis by simp
qed

end
